theory Spec2Isabelle
  imports Complex_Main
begin

section \<open>JavaScript values\<close>

text \<open>
  A JavaScript number is \<open>NaN\<close>, one of the two infinities, or a finite value. The finite
  values are given as reals (the doubles are among them); \<open>+0\<close> and \<open>-0\<close> are one value,
  as they are for \<open>===\<close> and \<open><\<close>.
\<close>

datatype number = NaN | NegInfinity | Finite real | Infinity

datatype jsval =
    Undefined
  | Null
  | Boolean bool
  | Number number
  | String string
  | Array "jsval list"
  | Object "(string \<times> jsval) list"

text \<open>\<open>isNaN(n)\<close> for a number \<open>n\<close>.\<close>

definition isNaN :: "number \<Rightarrow> bool" where
  "isNaN n = (n = NaN)"

text \<open>The relational operator \<open>a < b\<close> on numbers: false as soon as one side is \<open>NaN\<close>.\<close>

fun js_lt :: "number \<Rightarrow> number \<Rightarrow> bool" where
  "js_lt NaN b = False"
| "js_lt a NaN = False"
| "js_lt a NegInfinity = False"
| "js_lt NegInfinity b = True"
| "js_lt Infinity b = False"
| "js_lt (Finite x) Infinity = True"
| "js_lt (Finite x) (Finite y) = (x < y)"

text \<open>Strict equality \<open>a === b\<close> on numbers: \<open>NaN\<close> equals nothing, itself included.\<close>

definition strict_eq :: "number \<Rightarrow> number \<Rightarrow> bool" where
  "strict_eq a b = (\<not> isNaN a \<and> \<not> isNaN b \<and> a = b)"

text \<open>\<open>a <= b\<close> on numbers.\<close>

definition js_le :: "number \<Rightarrow> number \<Rightarrow> bool" where
  "js_le a b = (js_lt a b \<or> strict_eq a b)"

text \<open>
  Rounding a real to the nearest double, ties to even, as IEEE 754 defines it for the
  binary64 format. \<open>exponent a\<close> is the binary exponent of the binade of \<open>a\<close>, between
  \<open>-1022\<close> (the subnormal numbers share the exponent of the least normal ones) and
  \<open>1023\<close>; a double of that binade is a multiple of \<open>2 powi (e - 52)\<close>; a result of
  magnitude \<open>2 ^ 1024\<close> or more is an infinity.
\<close>

fun exponent_from :: "nat \<Rightarrow> real \<Rightarrow> int" where
  "exponent_from 0 a = - 1022"
| "exponent_from (Suc n) a =
     (if 2 powi (int n - 1022) \<le> a then int n - 1022 else exponent_from n a)"

definition exponent :: "real \<Rightarrow> int" where
  "exponent a = exponent_from 2046 a"

definition round_half_even :: "real \<Rightarrow> int" where
  "round_half_even r =
     (let f = \<lfloor>r\<rfloor>; d = r - of_int f
      in if d < 1 / 2 then f
         else if 1 / 2 < d then f + 1
         else if even f then f else f + 1)"

definition round_double :: "real \<Rightarrow> number" where
  "round_double x =
     (let e = exponent \<bar>x\<bar>;
          ulp = 2 powi (e - 52);
          r = of_int (round_half_even (x / ulp)) * ulp
      in if 2 ^ 1024 \<le> r then Infinity
         else if r \<le> - (2 ^ 1024) then NegInfinity
         else Finite r)"


text \<open>
  The operator \<open>a + b\<close> on numbers: the sum of two finite numbers is their exact sum,
  rounded to the nearest double.
\<close>

fun js_add :: "number \<Rightarrow> number \<Rightarrow> number" where
  "js_add NaN b = NaN"
| "js_add a NaN = NaN"
| "js_add Infinity NegInfinity = NaN"
| "js_add NegInfinity Infinity = NaN"
| "js_add Infinity b = Infinity"
| "js_add a Infinity = Infinity"
| "js_add NegInfinity b = NegInfinity"
| "js_add a NegInfinity = NegInfinity"
| "js_add (Finite x) (Finite y) = round_double (x + y)"

text \<open>
  \<open>Math.min(...values)\<close> and \<open>Math.max(...values)\<close> on a list of numbers, as ECMAScript
  defines them: the running bound starts at \<open>+Infinity\<close> (\<open>-Infinity\<close> for the maximum),
  a \<open>NaN\<close> argument makes the result \<open>NaN\<close>, and a smaller (larger) argument replaces the
  bound. (The step that puts \<open>-0\<close> below \<open>+0\<close> has no counterpart, the two being one
  value here.)
\<close>

fun lowest_from :: "number \<Rightarrow> number list \<Rightarrow> number" where
  "lowest_from lowest [] = lowest"
| "lowest_from lowest (n # ns) =
     (if isNaN n then NaN
      else lowest_from (if js_lt n lowest then n else lowest) ns)"

fun highest_from :: "number \<Rightarrow> number list \<Rightarrow> number" where
  "highest_from highest [] = highest"
| "highest_from highest (n # ns) =
     (if isNaN n then NaN
      else highest_from (if js_lt highest n then n else highest) ns)"

definition Math_min :: "number list \<Rightarrow> number" where
  "Math_min args = lowest_from Infinity args"

definition Math_max :: "number list \<Rightarrow> number" where
  "Math_max args = highest_from NegInfinity args"

section \<open>Feature collections\<close>

text \<open>
  A feature carries its property bag, a feature collection its \<open>features\<close> array. Reading
  a key that the bag does not have gives \<open>undefined\<close>.
\<close>

record feature =
  properties :: "string \<rightharpoonup> jsval"

record geojson =
  features :: "feature list"

definition property :: "feature \<Rightarrow> string \<Rightarrow> jsval" where
  "property f k = (case properties f k of None \<Rightarrow> Undefined | Some v \<Rightarrow> v)"

text \<open>
  The filter of \<open>getMinMaxFromGeoJson\<close>,
  \<open>typeof val === 'number' && !isNaN(val) && val !== null\<close>, gives the number a kept
  value is: only a \<open>Number\<close> has type \<open>'number'\<close> (the \<open>&&\<close> stops at any other value),
  and a number is never \<open>null\<close>.
\<close>

fun kept :: "jsval \<Rightarrow> number option" where
  "kept (Number n) = (if \<not> isNaN n then Some n else None)"
| "kept val = None"

section \<open>getMinMaxFromGeoJson\<close>

definition getMinMaxFromGeoJson :: "geojson \<Rightarrow> string \<Rightarrow> number \<times> number" where
  "getMinMaxFromGeoJson geoJsonData statisticKey =
     (let vals = List.map_filter kept
                   (map (\<lambda>f. property f statisticKey) (features geoJsonData))
      in if length vals = 0 then (Finite 0, Finite 0)
         else
           let minValue = Math_min vals;
               maxValue = Math_max vals
           in if strict_eq minValue maxValue
              then (minValue, js_add minValue (Finite 1))
              else (minValue, maxValue))"

text \<open>
  The numeric values of a collection for a key, in the words of the specification: a feature
  contributes the value of the key when it has one that is a number other than \<open>NaN\<close>.
\<close>

definition has_value :: "geojson \<Rightarrow> string \<Rightarrow> number \<Rightarrow> bool" where
  "has_value g k v =
     (\<exists>f \<in> set (features g). properties f k = Some (Number v) \<and> v \<noteq> NaN)"

section \<open>getDynamicFillColorExpression\<close>

text \<open>
  \<open>chroma\<close> is the colour library of the page, not code of this module. The colours it
  computes are kept as the calls that make them: \<open>chroma.scale(cs)\<close>, \<open>.domain(d)\<close> and
  \<open>.mode(m)\<close> build a scale, \<open>colorScale(v)\<close> applies it, \<open>.brighten()\<close> brightens a
  colour, and the string \<open>c.hex()\<close> is the leaf \<open>Hex c\<close> of a style expression.
\<close>

datatype scale = Scale "string list" | ScaleDomain scale "number list" | ScaleMode scale string

datatype color = Apply scale number | Brighten color

text \<open>A style expression of the renderer: nested arrays of strings, numbers and booleans.\<close>

datatype expression =
    Str string
  | Num number
  | Bool bool
  | Hex color
  | Arr "expression list"

definition getDynamicFillColorExpression :: "geojson \<Rightarrow> string \<Rightarrow> expression" where
  "getDynamicFillColorExpression geoJsonData statisticKey =
     (case getMinMaxFromGeoJson geoJsonData statisticKey of (minValue, maxValue) \<Rightarrow>
        let colorScale =
              ScaleMode (ScaleDomain (Scale [''#add8e6'', ''#4682b4'', ''#00008b''])
                           [minValue, maxValue])
                   ''lab''
        in Arr [
             Str ''case'',
             Arr [Str ''boolean'', Arr [Str ''feature-state'', Str ''hover''], Bool False],
             Arr [
               Str ''interpolate'',
               Arr [Str ''linear''],
               Arr [Str ''coalesce'', Arr [Str ''get'', Str statisticKey], Num (Finite 0)],
               Num minValue, Hex (Brighten (Apply colorScale minValue)),
               Num maxValue, Hex (Brighten (Apply colorScale maxValue))
             ],
             Arr [
               Str ''interpolate'',
               Arr [Str ''linear''],
               Arr [Str ''coalesce'', Arr [Str ''get'', Str statisticKey], Num (Finite 0)],
               Num minValue, Hex (Apply colorScale minValue),
               Num maxValue, Hex (Apply colorScale maxValue)
             ]
           ])"

subsection \<open>Reading a style expression\<close>

text \<open>
  The parts of the two operators the expression is built from, as the renderer's style
  specification lays them out: \<open>['case', condition, output, fallback]\<close> and
  \<open>['interpolate', interpolation, input, stop, output, stop, output, ...]\<close>.
\<close>

fun case_parts :: "expression \<Rightarrow> (expression \<times> expression \<times> expression) option" where
  "case_parts (Arr [Str operator, condition, output, fallback]) =
     (if operator = ''case'' then Some (condition, output, fallback) else None)"
| "case_parts e = None"

fun stops :: "expression list \<Rightarrow> (expression \<times> expression) list" where
  "stops (input # output # rest) = (input, output) # stops rest"
| "stops rest = []"

fun interpolate_parts ::
  "expression \<Rightarrow> (expression \<times> expression \<times> (expression \<times> expression) list) option" where
  "interpolate_parts (Arr (Str operator # interpolation # input # rest)) =
     (if operator = ''interpolate'' then Some (interpolation, input, stops rest) else None)"
| "interpolate_parts e = None"

definition when_hovered :: "expression \<Rightarrow> expression option" where
  "when_hovered e = map_option (\<lambda>(condition, output, fallback). output) (case_parts e)"

definition when_not_hovered :: "expression \<Rightarrow> expression option" where
  "when_not_hovered e = map_option (\<lambda>(condition, output, fallback). fallback) (case_parts e)"

definition stop_count :: "expression \<Rightarrow> nat option" where
  "stop_count e =
     map_option (\<lambda>(interpolation, input, pairs). length pairs) (interpolate_parts e)"

definition interpolate_input :: "expression \<Rightarrow> expression option" where
  "interpolate_input e =
     map_option (\<lambda>(interpolation, input, pairs). input) (interpolate_parts e)"

text \<open>
  Modelled from the spec: the renderer that evaluates a style expression on each feature
  is not code of this repository. Of its operators the two that read the statistic are
  modelled, with the meaning that the renderer's style specification gives them:
  \<open>['get', k]\<close> is the feature's property \<open>k\<close>, \<open>null\<close> when the feature has none;
  \<open>['coalesce', e1, e2, ...]\<close> is the first of its arguments that is not \<open>null\<close>. Other
  operators have no value here (\<open>None\<close>).
\<close>

fun evaluate :: "feature \<Rightarrow> expression \<Rightarrow> jsval option"
  and coalesce :: "feature \<Rightarrow> expression list \<Rightarrow> jsval option" where
  "evaluate f (Str s) = Some (String s)"
| "evaluate f (Num n) = Some (Number n)"
| "evaluate f (Bool b) = Some (Boolean b)"
| "evaluate f (Hex c) = None"
| "evaluate f (Arr []) = None"
| "evaluate f (Arr (e # args)) =
     (if e = Str ''get'' then
        (case args of
           [Str k] \<Rightarrow> (case properties f k of None \<Rightarrow> Some Null | Some v \<Rightarrow> Some v)
         | _ \<Rightarrow> None)
      else if e = Str ''coalesce'' then coalesce f args
      else None)"
| "coalesce f [] = Some Null"
| "coalesce f (e # es) =
     (case evaluate f e of
        None \<Rightarrow> None
      | Some Null \<Rightarrow> coalesce f es
      | Some v \<Rightarrow> Some v)"

section \<open>The map instance\<close>

text \<open>
  The map instance is the object of the host library. \<open>layers\<close> is the array
  \<open>map.getStyle().layers\<close>, in style order; \<open>sources\<close> maps a source id to its
  definition; \<open>removals\<close> is the sequence of removal operations performed on the map so
  far.
\<close>

record layer =
  layer_id :: string
  layer_type :: string

datatype operation = RemoveLayer string | RemoveSource string

datatype error = NoSuchLayer string | NoSuchSource string

record map_instance =
  layers :: "layer list"
  sources :: "string \<rightharpoonup> jsval"
  removals :: "operation list"

text \<open>
  Modelled from the spec: the methods \<open>getLayer\<close>, \<open>getSource\<close>, \<open>removeLayer\<close> and
  \<open>removeSource\<close> of the map instance are the host library's, not code of this
  repository. The specification treats the map as a registry of layers and sources, and so
  does the model: \<open>getLayer\<close> and \<open>getSource\<close> look an id up (\<open>None\<close> is
  \<open>undefined\<close>), \<open>removeLayer\<close> and \<open>removeSource\<close> delete the entry of an id, and
  removing an id that is not registered is an error of the library, the case that the
  guards of \<open>cleanupLayers\<close> are there to exclude.
\<close>

definition getLayer :: "map_instance \<Rightarrow> string \<Rightarrow> layer option" where
  "getLayer m i = find (\<lambda>l. layer_id l = i) (layers m)"

definition getSource :: "map_instance \<Rightarrow> string \<Rightarrow> jsval option" where
  "getSource m i = sources m i"

definition removeLayer :: "map_instance \<Rightarrow> string \<Rightarrow> error + map_instance" where
  "removeLayer m i =
     (if getLayer m i = None then Inl (NoSuchLayer i)
      else Inr (m\<lparr>layers := filter (\<lambda>l. layer_id l \<noteq> i) (layers m),
                  removals := removals m @ [RemoveLayer i]\<rparr>))"

definition removeSource :: "map_instance \<Rightarrow> string \<Rightarrow> error + map_instance" where
  "removeSource m i =
     (if getSource m i = None then Inl (NoSuchSource i)
      else Inr (m\<lparr>sources := (sources m)(i := None),
                  removals := removals m @ [RemoveSource i]\<rparr>))"

section \<open>findFirstSymbolLayer\<close>

text \<open>The \<open>for ... of\<close> loop over the layers; \<open>None\<close> is the \<open>null\<close> it returns at the end.\<close>

fun first_symbol :: "layer list \<Rightarrow> string option" where
  "first_symbol [] = None"
| "first_symbol (layer # rest) =
     (if layer_type layer = ''symbol'' then Some (layer_id layer) else first_symbol rest)"

definition findFirstSymbolLayer :: "map_instance \<Rightarrow> string option" where
  "findFirstSymbolLayer m = first_symbol (layers m)"

section \<open>cleanupLayers\<close>

text \<open>
  The two \<open>forEach\<close> loops. An error of a removal would leave the loop, as the exception
  would.
\<close>

fun forEach_layerId :: "map_instance \<Rightarrow> string list \<Rightarrow> error + map_instance" where
  "forEach_layerId m [] = Inr m"
| "forEach_layerId m (layerId # rest) =
     (if getLayer m layerId \<noteq> None then
        (case removeLayer m layerId of
           Inl e \<Rightarrow> Inl e
         | Inr m' \<Rightarrow> forEach_layerId m' rest)
      else forEach_layerId m rest)"

fun forEach_sourceId :: "map_instance \<Rightarrow> string list \<Rightarrow> error + map_instance" where
  "forEach_sourceId m [] = Inr m"
| "forEach_sourceId m (sourceId # rest) =
     (if getSource m sourceId \<noteq> None then
        (case removeSource m sourceId of
           Inl e \<Rightarrow> Inl e
         | Inr m' \<Rightarrow> forEach_sourceId m' rest)
      else forEach_sourceId m rest)"

definition cleanupLayers ::
  "map_instance \<Rightarrow> string list \<Rightarrow> string list \<Rightarrow> error + map_instance" where
  "cleanupLayers m layerIds sourceIds =
     (case forEach_layerId m layerIds of
        Inl e \<Rightarrow> Inl e
      | Inr m' \<Rightarrow> forEach_sourceId m' sourceIds)"

text \<open>
  A sequence of removal operations in which no \<open>removeSource\<close> comes before a
  \<open>removeLayer\<close>.
\<close>

fun only_sources :: "operation list \<Rightarrow> bool" where
  "only_sources [] = True"
| "only_sources (RemoveSource i # ops) = only_sources ops"
| "only_sources (RemoveLayer i # ops) = False"

fun layers_first :: "operation list \<Rightarrow> bool" where
  "layers_first [] = True"
| "layers_first (RemoveLayer i # ops) = layers_first ops"
| "layers_first (RemoveSource i # ops) = only_sources ops"

section \<open>The helpers with their exceptions\<close>

text \<open>
  The definitions above take their inputs in the shape the specification gives them, and
  so have no exception to raise. The definitions of this section run the same code on
  inputs as an engine can receive them, with the exceptions of a run: the \<open>TypeError\<close> of
  a member read on \<open>null\<close> or \<open>undefined\<close>, the \<open>RangeError\<close> of a call with more
  arguments than the engine takes, and an exception of the colour library.
\<close>

datatype exception = TypeError | RangeError | ChromaError

text \<open>
  A feature as GeoJSON has it: its \<open>properties\<close> member is an object or \<open>null\<close>
  (\<open>None\<close>).
\<close>

record js_feature =
  js_properties :: "(string \<rightharpoonup> jsval) option"

record js_geojson =
  js_features :: "js_feature list"

text \<open>
  The callback \<open>f => f.properties[statisticKey]\<close> over the features, from the first to
  the last: the member read raises when \<open>f.properties\<close> is \<open>null\<close>.
\<close>

fun map_statistic :: "string \<Rightarrow> js_feature list \<Rightarrow> exception + jsval list" where
  "map_statistic statisticKey [] = Inr []"
| "map_statistic statisticKey (f # rest) =
     (case js_properties f of
        None \<Rightarrow> Inl TypeError
      | Some p \<Rightarrow>
          (case map_statistic statisticKey rest of
             Inl e \<Rightarrow> Inl e
           | Inr vals \<Rightarrow>
               Inr ((case p statisticKey of None \<Rightarrow> Undefined | Some v \<Rightarrow> v) # vals)))"

text \<open>
  A call \<open>f(...args)\<close> that spreads an array into the arguments. ECMAScript sets no bound
  on the number of arguments, every engine has one: \<open>max_arguments\<close> is the engine's, and
  a longer array raises a \<open>RangeError\<close>.
\<close>

definition spread_call ::
  "nat \<Rightarrow> (number list \<Rightarrow> number) \<Rightarrow> number list \<Rightarrow> exception + number" where
  "spread_call max_arguments f args =
     (if max_arguments < length args then Inl RangeError else Inr (f args))"

definition getMinMaxFromGeoJson_js ::
  "nat \<Rightarrow> js_geojson \<Rightarrow> string \<Rightarrow> exception + number \<times> number" where
  "getMinMaxFromGeoJson_js max_arguments geoJsonData statisticKey =
     (case map_statistic statisticKey (js_features geoJsonData) of
        Inl e \<Rightarrow> Inl e
      | Inr mapped \<Rightarrow>
          let vals = List.map_filter kept mapped
          in if length vals = 0 then Inr (Finite 0, Finite 0)
             else
               (case spread_call max_arguments Math_min vals of
                  Inl e \<Rightarrow> Inl e
                | Inr minValue \<Rightarrow>
                    (case spread_call max_arguments Math_max vals of
                       Inl e \<Rightarrow> Inl e
                     | Inr maxValue \<Rightarrow>
                         if strict_eq minValue maxValue
                         then Inr (minValue, js_add minValue (Finite 1))
                         else Inr (minValue, maxValue))))"

text \<open>
  The colour library as a parameter: \<open>scale_returns s\<close> says that building the scale \<open>s\<close>
  returns, \<open>hex_returns c\<close> that computing the string of the colour \<open>c\<close> does; otherwise
  the library raises.
\<close>

record chroma =
  scale_returns :: "scale \<Rightarrow> bool"
  hex_returns :: "color \<Rightarrow> bool"

definition getDynamicFillColorExpression_js ::
  "nat \<Rightarrow> chroma \<Rightarrow> js_geojson \<Rightarrow> string \<Rightarrow> exception + expression" where
  "getDynamicFillColorExpression_js max_arguments library geoJsonData statisticKey =
     (case getMinMaxFromGeoJson_js max_arguments geoJsonData statisticKey of
        Inl e \<Rightarrow> Inl e
      | Inr (minValue, maxValue) \<Rightarrow>
          let colorScale =
                ScaleMode (ScaleDomain (Scale [''#add8e6'', ''#4682b4'', ''#00008b''])
                             [minValue, maxValue])
                     ''lab''
          in if \<not> scale_returns library colorScale then Inl ChromaError
             else if \<not> hex_returns library (Brighten (Apply colorScale minValue)) then
               Inl ChromaError
             else if \<not> hex_returns library (Brighten (Apply colorScale maxValue)) then
               Inl ChromaError
             else if \<not> hex_returns library (Apply colorScale minValue) then Inl ChromaError
             else if \<not> hex_returns library (Apply colorScale maxValue) then Inl ChromaError
             else
               Inr (Arr [
                 Str ''case'',
                 Arr [Str ''boolean'', Arr [Str ''feature-state'', Str ''hover''], Bool False],
                 Arr [
                   Str ''interpolate'',
                   Arr [Str ''linear''],
                   Arr [Str ''coalesce'', Arr [Str ''get'', Str statisticKey], Num (Finite 0)],
                   Num minValue, Hex (Brighten (Apply colorScale minValue)),
                   Num maxValue, Hex (Brighten (Apply colorScale maxValue))
                 ],
                 Arr [
                   Str ''interpolate'',
                   Arr [Str ''linear''],
                   Arr [Str ''coalesce'', Arr [Str ''get'', Str statisticKey], Num (Finite 0)],
                   Num minValue, Hex (Apply colorScale minValue),
                   Num maxValue, Hex (Apply colorScale maxValue)
                 ]
               ]))"

text \<open>
  Modelled from the spec: \<open>getStyle\<close> is the host library's, not code of this repository.
  The specification has the layers of the style as an ordered list; a map whose style is
  not loaded has none to give, and \<open>getStyle()\<close> is \<open>undefined\<close> (\<open>None\<close>) then.
\<close>

record js_map =
  style_loaded :: bool
  registry :: map_instance

definition getStyle :: "js_map \<Rightarrow> layer list option" where
  "getStyle m = (if style_loaded m then Some (layers (registry m)) else None)"

definition findFirstSymbolLayer_js :: "js_map \<Rightarrow> exception + string option" where
  "findFirstSymbolLayer_js m =
     (case getStyle m of
        None \<Rightarrow> Inl TypeError
      | Some style_layers \<Rightarrow> Inr (first_symbol style_layers))"

text \<open>
  The inputs of the shape that the specification gives them: every feature carries a
  mapping from property names to values, and the map has its style. \<open>collection\<close> is such
  an input as a feature collection; \<open>numeric_features\<close> are the features that have a
  numeric value for the key.
\<close>

definition well_shaped :: "js_geojson \<Rightarrow> bool" where
  "well_shaped g = list_all (\<lambda>f. js_properties f \<noteq> None) (js_features g)"

definition collection :: "js_geojson \<Rightarrow> geojson" where
  "collection g =
     \<lparr>features =
        map (\<lambda>f. \<lparr>properties = (case js_properties f of None \<Rightarrow> Map.empty | Some p \<Rightarrow> p)\<rparr>)
          (js_features g)\<rparr>"

definition numeric_features :: "js_geojson \<Rightarrow> string \<Rightarrow> js_feature list" where
  "numeric_features g k =
     filter (\<lambda>f. case js_properties f of
                   None \<Rightarrow> False
                 | Some p \<Rightarrow> (case p k of Some (Number v) \<Rightarrow> v \<noteq> NaN | _ \<Rightarrow> False))
       (js_features g)"

definition chroma_returns :: "chroma \<Rightarrow> number \<times> number \<Rightarrow> bool" where
  "chroma_returns library bounds =
     (case bounds of (lo, hi) \<Rightarrow>
        let sc = ScaleMode (ScaleDomain (Scale [''#add8e6'', ''#4682b4'', ''#00008b''])
                              [lo, hi]) ''lab''
        in scale_returns library sc \<and>
           hex_returns library (Brighten (Apply sc lo)) \<and>
           hex_returns library (Brighten (Apply sc hi)) \<and>
           hex_returns library (Apply sc lo) \<and>
           hex_returns library (Apply sc hi))"

text \<open>
  The reading of ``three-stop interpolation'' for the returned expression: each of the two
  branches is an \<open>interpolate\<close> with three stops.
\<close>

definition three_stop_branches :: "expression \<Rightarrow> bool" where
  "three_stop_branches e =
     (Option.bind (when_hovered e) stop_count = Some 3 \<and>
      Option.bind (when_not_hovered e) stop_count = Some 3)"

section \<open>Examples\<close>

text \<open>
  A collection of six features. For the key \<open>n\<close> two of them carry numbers (7 and 3), the
  others a string, nothing, \<open>NaN\<close> and \<open>null\<close>; for the key \<open>m\<close> one carries the number
  4; no feature has the key \<open>q\<close>.
\<close>

definition example_collection :: geojson where
  "example_collection =
     \<lparr>features = [
        \<lparr>properties = [''n'' \<mapsto> Number (Finite 7)]\<rparr>,
        \<lparr>properties = [''n'' \<mapsto> String ''x'']\<rparr>,
        \<lparr>properties = Map.empty\<rparr>,
        \<lparr>properties = [''n'' \<mapsto> Number NaN]\<rparr>,
        \<lparr>properties = [''n'' \<mapsto> Number (Finite 3)]\<rparr>,
        \<lparr>properties = [''n'' \<mapsto> Null, ''m'' \<mapsto> Number (Finite 4)]\<rparr>]\<rparr>"

definition example_feature :: feature where
  "example_feature = \<lparr>properties = [''name'' \<mapsto> String ''x'']\<rparr>"

text \<open>A map with three layers and two sources, and the identifiers of a cleanup.\<close>

definition example_map :: map_instance where
  "example_map =
     \<lparr>layers = [\<lparr>layer_id = ''water'', layer_type = ''fill''\<rparr>,
                \<lparr>layer_id = ''labels'', layer_type = ''symbol''\<rparr>,
                \<lparr>layer_id = ''icons'', layer_type = ''symbol''\<rparr>],
      sources = [''units'' \<mapsto> String ''geojson'', ''tiles'' \<mapsto> String ''vector''],
      removals = []\<rparr>"

definition example_layerIds :: "string list" where
  "example_layerIds = [''water'', ''roads'', ''water'']"

definition example_sourceIds :: "string list" where
  "example_sourceIds = [''units'', ''heat'']"

definition example_cleaned :: map_instance where
  "example_cleaned =
     \<lparr>layers = [\<lparr>layer_id = ''labels'', layer_type = ''symbol''\<rparr>,
                \<lparr>layer_id = ''icons'', layer_type = ''symbol''\<rparr>],
      sources = (sources example_map)(''units'' := None),
      removals = [RemoveLayer ''water'', RemoveSource ''units'']\<rparr>"







section \<open>The order of the numbers\<close>

lemma js_le_refl: "a \<noteq> NaN \<Longrightarrow> js_le a a"
  by (simp add: js_le_def strict_eq_def isNaN_def)

lemma js_lt_trans: "js_lt a b \<Longrightarrow> js_lt b c \<Longrightarrow> js_lt a c"
  by (cases a; cases b; cases c) auto

lemma js_le_trans: "js_le a b \<Longrightarrow> js_le b c \<Longrightarrow> js_le a c"
  by (auto simp: js_le_def strict_eq_def dest: js_lt_trans)

lemma js_lt_total: "a \<noteq> NaN \<Longrightarrow> b \<noteq> NaN \<Longrightarrow> js_lt a b \<or> a = b \<or> js_lt b a"
  by (cases a; cases b) auto

lemma js_not_lt_le: "a \<noteq> NaN \<Longrightarrow> b \<noteq> NaN \<Longrightarrow> \<not> js_lt a b \<Longrightarrow> js_le b a"
  using js_lt_total [of a b] by (auto simp: js_le_def strict_eq_def isNaN_def)

lemma js_lt_le: "js_lt a b \<Longrightarrow> js_le a b"
  by (simp add: js_le_def)

lemma js_le_antisym: "js_le a b \<Longrightarrow> js_le b a \<Longrightarrow> a = b"
  by (cases a; cases b) (auto simp: js_le_def strict_eq_def)

lemma js_le_not_NaN: "js_le a b \<Longrightarrow> a \<noteq> NaN \<and> b \<noteq> NaN"
  by (cases a; cases b) (auto simp: js_le_def strict_eq_def isNaN_def)

lemma lowest_from_spec:
  "NaN \<notin> set ns \<Longrightarrow> lo \<noteq> NaN \<Longrightarrow>
   lowest_from lo ns \<in> insert lo (set ns) \<and> js_le (lowest_from lo ns) lo \<and>
   (\<forall>n \<in> set ns. js_le (lowest_from lo ns) n)"
proof (induction ns arbitrary: lo)
  case Nil
  then show ?case by (simp add: js_le_refl)
next
  case (Cons n ns)
  let ?lo' = "if js_lt n lo then n else lo"
  from Cons.prems have n: "n \<noteq> NaN" and ns: "NaN \<notin> set ns" by auto
  have lo': "?lo' \<noteq> NaN" using n Cons.prems by simp
  have le_lo: "js_le ?lo' lo" using Cons.prems by (simp add: js_lt_le js_le_refl)
  have le_n: "js_le ?lo' n" using n Cons.prems by (simp add: js_not_lt_le js_le_refl)
  from Cons.IH [OF ns lo'] have
    ih1: "lowest_from ?lo' ns \<in> insert ?lo' (set ns)" and
    ih2: "js_le (lowest_from ?lo' ns) ?lo'" and
    ih3: "\<forall>m \<in> set ns. js_le (lowest_from ?lo' ns) m" by blast+
  have eq: "lowest_from lo (n # ns) = lowest_from ?lo' ns"
    using n by (simp add: isNaN_def)
  show ?case
    unfolding eq using ih1 ih2 ih3 js_le_trans [OF ih2 le_lo] js_le_trans [OF ih2 le_n]
    by (auto split: if_splits)
qed

lemma highest_from_spec:
  "NaN \<notin> set ns \<Longrightarrow> hi \<noteq> NaN \<Longrightarrow>
   highest_from hi ns \<in> insert hi (set ns) \<and> js_le hi (highest_from hi ns) \<and>
   (\<forall>n \<in> set ns. js_le n (highest_from hi ns))"
proof (induction ns arbitrary: hi)
  case Nil
  then show ?case by (simp add: js_le_refl)
next
  case (Cons n ns)
  let ?hi' = "if js_lt hi n then n else hi"
  from Cons.prems have n: "n \<noteq> NaN" and ns: "NaN \<notin> set ns" by auto
  have hi': "?hi' \<noteq> NaN" using n Cons.prems by simp
  have le_hi: "js_le hi ?hi'" using Cons.prems by (simp add: js_lt_le js_le_refl)
  have le_n: "js_le n ?hi'" using n Cons.prems by (simp add: js_not_lt_le js_le_refl)
  from Cons.IH [OF ns hi'] have
    ih1: "highest_from ?hi' ns \<in> insert ?hi' (set ns)" and
    ih2: "js_le ?hi' (highest_from ?hi' ns)" and
    ih3: "\<forall>m \<in> set ns. js_le m (highest_from ?hi' ns)" by blast+
  have eq: "highest_from hi (n # ns) = highest_from ?hi' ns"
    using n by (simp add: isNaN_def)
  show ?case
    unfolding eq using ih1 ih2 ih3 js_le_trans [OF le_hi ih2] js_le_trans [OF le_n ih2]
    by (auto split: if_splits)
qed

lemma Infinity_greatest: "n \<noteq> NaN \<Longrightarrow> js_le n Infinity"
  by (cases n) (auto simp: js_le_def strict_eq_def isNaN_def)

lemma NegInfinity_least: "n \<noteq> NaN \<Longrightarrow> js_le NegInfinity n"
  by (cases n) (auto simp: js_le_def strict_eq_def isNaN_def)

lemma Math_min_spec:
  assumes "NaN \<notin> set ns" "ns \<noteq> []"
  shows "Math_min ns \<in> set ns \<and> (\<forall>n \<in> set ns. js_le (Math_min ns) n)"
proof -
  from lowest_from_spec [OF assms(1), of Infinity] have
    mem: "Math_min ns \<in> insert Infinity (set ns)" and
    low: "\<forall>n \<in> set ns. js_le (Math_min ns) n" by (simp_all add: Math_min_def)
  from assms(2) obtain n where n: "n \<in> set ns" by (cases ns) auto
  have "Math_min ns \<in> set ns"
  proof (cases "Math_min ns = Infinity")
    case True
    from n assms(1) have "n \<noteq> NaN" by auto
    then have "js_le n Infinity" by (rule Infinity_greatest)
    moreover from low n True have "js_le Infinity n" by auto
    ultimately have "n = Infinity" by (rule js_le_antisym)
    with n True show ?thesis by simp
  next
    case False
    with mem show ?thesis by simp
  qed
  with low show ?thesis by simp
qed

lemma Math_max_spec:
  assumes "NaN \<notin> set ns" "ns \<noteq> []"
  shows "Math_max ns \<in> set ns \<and> (\<forall>n \<in> set ns. js_le n (Math_max ns))"
proof -
  from highest_from_spec [OF assms(1), of NegInfinity] have
    mem: "Math_max ns \<in> insert NegInfinity (set ns)" and
    high: "\<forall>n \<in> set ns. js_le n (Math_max ns)" by (simp_all add: Math_max_def)
  from assms(2) obtain n where n: "n \<in> set ns" by (cases ns) auto
  have "Math_max ns \<in> set ns"
  proof (cases "Math_max ns = NegInfinity")
    case True
    from n assms(1) have "n \<noteq> NaN" by auto
    then have "js_le NegInfinity n" by (rule NegInfinity_least)
    moreover from high n True have "js_le n NegInfinity" by auto
    ultimately have "NegInfinity = n" by (rule js_le_antisym)
    with n True show ?thesis by simp
  next
    case False
    with mem show ?thesis by simp
  qed
  with high show ?thesis by simp
qed

section \<open>Rounding to a double\<close>

lemma exponent_from_lower: "- 1022 \<le> exponent_from n a"
  by (induction n) auto

lemma exponent_from_below: "2 powi (- 1022) \<le> a \<Longrightarrow> 2 powi (exponent_from n a) \<le> a"
  by (induction n) auto

lemma exponent_from_above:
  "a < 2 powi (int n - 1022) \<Longrightarrow> a < 2 powi (exponent_from n a + 1)"
proof (induction n)
  case 0
  have "(2::real) powi (- 1022) \<le> 2 powi (- 1022 + 1)"
    by (rule power_int_increasing) simp_all
  with 0 show ?case by simp
next
  case (Suc n)
  show ?case
  proof (cases "2 powi (int n - 1022) \<le> a")
    case True
    have "int n - 1022 + 1 = int (Suc n) - 1022" by simp
    with True Suc.prems show ?thesis by simp
  next
    case False
    then have "a < 2 powi (int n - 1022)" by simp
    with False Suc.IH show ?thesis by simp
  qed
qed

lemma exponent_unique:
  assumes lo: "2 powi e \<le> a" and hi: "a < 2 powi (e + 1)"
    and range: "- 1022 \<le> e" "e \<le> 1023"
  shows "exponent a = e"
proof -
  have "(2::real) powi (- 1022) \<le> 2 powi e"
    using range(1) by (intro power_int_increasing) simp_all
  with lo have normal: "2 powi (- 1022) \<le> a" by simp
  have "(2::real) powi (e + 1) \<le> 2 powi (int 2046 - 1022)"
    using range(2) by (intro power_int_increasing) simp_all
  with hi have finite: "a < 2 powi (int 2046 - 1022)" by simp
  from exponent_from_below [OF normal, of 2046] exponent_from_above [OF finite]
  have lo': "2 powi (exponent a) \<le> a" and hi': "a < 2 powi (exponent a + 1)"
    by (simp_all add: exponent_def)
  from lo hi' have "(2::real) powi e < 2 powi (exponent a + 1)" by simp
  then have "e < exponent a + 1"
    by (metis power_int_increasing not_less one_le_numeral)
  moreover from lo' hi have "(2::real) powi (exponent a) < 2 powi (e + 1)" by simp
  then have "exponent a < e + 1"
    by (metis power_int_increasing not_less one_le_numeral)
  ultimately show ?thesis by simp
qed






lemma round_double_tie_to_even: "round_double (2 ^ 53 + 3) = Finite (2 ^ 53 + 4)"
proof -
  have e: "exponent \<bar>2 ^ 53 + 3 :: real\<bar> = 53"
    by (rule exponent_unique) simp_all
  have "round_half_even ((2 ^ 53 + 3) / 2) = 2 ^ 52 + 2"
    by (simp add: round_half_even_def)
  then show ?thesis
    unfolding round_double_def Let_def e by simp
qed



section \<open>Properties of the range extraction\<close>

lemma kept_Some: "kept v = Some n \<longleftrightarrow> v = Number n \<and> n \<noteq> NaN"
  by (cases v) (auto simp: isNaN_def)

lemma set_kept_values:
  "set (List.map_filter kept (map (\<lambda>f. property f k) (features g))) = {v. has_value g k v}"
proof -
  have "set (List.map_filter kept (map (\<lambda>f. property f k) fs)) =
        {v. \<exists>f \<in> set fs. properties f k = Some (Number v) \<and> v \<noteq> NaN}" for fs
  proof (induction fs)
    case Nil
    show ?case by (simp add: List.map_filter_simps)
  next
    case (Cons f fs)
    show ?case
    proof (cases "kept (property f k)")
      case None
      then have "\<not> (\<exists>v. properties f k = Some (Number v) \<and> v \<noteq> NaN)"
        by (auto simp: property_def isNaN_def split: if_splits)
      with None Cons.IH show ?thesis by (auto simp: List.map_filter_simps)
    next
      case (Some n)
      then have "properties f k = Some (Number n) \<and> n \<noteq> NaN"
        by (auto simp: kept_Some property_def split: option.splits)
      with Some Cons.IH show ?thesis by (auto simp: List.map_filter_simps)
    qed
  qed
  then show ?thesis by (simp add: has_value_def)
qed

lemma getMinMax_cases:
  assumes "has_value g k a"
  shows "\<exists>m M. has_value g k m \<and> has_value g k M \<and>
           (\<forall>v. has_value g k v \<longrightarrow> js_le m v \<and> js_le v M) \<and>
           getMinMaxFromGeoJson g k = (if m = M then (m, js_add m (Finite 1)) else (m, M))"
proof -
  let ?vals = "List.map_filter kept (map (\<lambda>f. property f k) (features g))"
  have set_vals: "set ?vals = {v. has_value g k v}" by (rule set_kept_values)
  have noNaN: "NaN \<notin> set ?vals" unfolding set_vals by (simp add: has_value_def)
  from assms have ne: "?vals \<noteq> []" using set_vals by auto
  from Math_min_spec [OF noNaN ne] Math_max_spec [OF noNaN ne] have
    m: "has_value g k (Math_min ?vals)" and M: "has_value g k (Math_max ?vals)" and
    b: "\<forall>v. has_value g k v \<longrightarrow> js_le (Math_min ?vals) v \<and> js_le v (Math_max ?vals)"
    unfolding set_vals by auto
  from m M have "Math_min ?vals \<noteq> NaN" "Math_max ?vals \<noteq> NaN" by (auto simp: has_value_def)
  then have seq: "strict_eq (Math_min ?vals) (Math_max ?vals) \<longleftrightarrow> Math_min ?vals = Math_max ?vals"
    by (simp add: strict_eq_def isNaN_def)
  have "getMinMaxFromGeoJson g k =
        (if Math_min ?vals = Math_max ?vals then (Math_min ?vals, js_add (Math_min ?vals) (Finite 1))
         else (Math_min ?vals, Math_max ?vals))"
    using ne seq by (simp add: getMinMaxFromGeoJson_def Let_def)
  with m M b show ?thesis by blast
qed


section \<open>Properties of the fill-colour expression\<close>

lemma getDynamic_shape:
  "getMinMaxFromGeoJson g k = (lo, hi) \<Longrightarrow>
   sc = ScaleMode (ScaleDomain (Scale [''#add8e6'', ''#4682b4'', ''#00008b'']) [lo, hi]) ''lab'' \<Longrightarrow>
   inp = Arr [Str ''coalesce'', Arr [Str ''get'', Str k], Num (Finite 0)] \<Longrightarrow>
   getDynamicFillColorExpression g k =
     Arr [Str ''case'',
          Arr [Str ''boolean'', Arr [Str ''feature-state'', Str ''hover''], Bool False],
          Arr [Str ''interpolate'', Arr [Str ''linear''], inp,
               Num lo, Hex (Brighten (Apply sc lo)), Num hi, Hex (Brighten (Apply sc hi))],
          Arr [Str ''interpolate'', Arr [Str ''linear''], inp,
               Num lo, Hex (Apply sc lo), Num hi, Hex (Apply sc hi)]]"
  by (simp add: getDynamicFillColorExpression_def Let_def)

lemma evaluate_input:
  "evaluate f (Arr [Str ''coalesce'', Arr [Str ''get'', Str k], Num (Finite 0)]) =
     (case properties f k of None \<Rightarrow> Some (Number (Finite 0)) | Some Null \<Rightarrow> Some (Number (Finite 0)) | Some v \<Rightarrow> Some v)"
  by (simp split: option.splits jsval.splits)

section \<open>Properties of the layer lookup\<close>

lemma first_symbol_None:
  "first_symbol ls = None \<longleftrightarrow> (\<forall>l \<in> set ls. layer_type l \<noteq> ''symbol'')"
  by (induction ls) auto

lemma first_symbol_Some:
  "i < length ls \<Longrightarrow> layer_type (ls ! i) = ''symbol'' \<Longrightarrow>
   (\<forall>j < i. layer_type (ls ! j) \<noteq> ''symbol'') \<Longrightarrow>
   first_symbol ls = Some (layer_id (ls ! i))"
proof (induction ls arbitrary: i)
  case Nil
  then show ?case by simp
next
  case (Cons l ls)
  show ?case
  proof (cases i)
    case 0
    with Cons.prems show ?thesis by simp
  next
    case (Suc n)
    with Cons.prems have head: "layer_type l \<noteq> ''symbol''" by auto
    from Suc Cons.prems have "n < length ls" "layer_type (ls ! n) = ''symbol''" by auto
    moreover from Suc Cons.prems have "\<forall>j < n. layer_type (ls ! j) \<noteq> ''symbol''" by auto
    ultimately have "first_symbol ls = Some (layer_id (ls ! n))" by (rule Cons.IH)
    with head Suc show ?thesis by simp
  qed
qed

section \<open>Properties of the cleanup\<close>

lemma getLayer_present: "getLayer m i \<noteq> None \<longleftrightarrow> i \<in> layer_id ` set (layers m)"
  by (auto simp: getLayer_def find_None_iff)

lemma forEach_layerId_effect:
  "\<exists>ks. forEach_layerId m ls =
          Inr (m\<lparr>layers := filter (\<lambda>l. layer_id l \<notin> set ls) (layers m),
                 removals := removals m @ map RemoveLayer ks\<rparr>) \<and>
        set ks = {i \<in> set ls. getLayer m i \<noteq> None} \<and> distinct ks"
proof (induction ls arbitrary: m)
  case Nil
  show ?case by (rule exI [of _ "[]"]) simp
next
  case (Cons i rest)
  show ?case
  proof (cases "getLayer m i = None")
    case True
    then have absent: "\<forall>l \<in> set (layers m). layer_id l \<noteq> i"
      using getLayer_present [of m i] by auto
    then have same: "filter (\<lambda>l. layer_id l \<notin> set (i # rest)) (layers m) =
                     filter (\<lambda>l. layer_id l \<notin> set rest) (layers m)"
      by (auto intro: filter_cong)
    from Cons.IH [of m] obtain ks where
      "forEach_layerId m rest =
         Inr (m\<lparr>layers := filter (\<lambda>l. layer_id l \<notin> set rest) (layers m),
                removals := removals m @ map RemoveLayer ks\<rparr>)"
      "set ks = {j \<in> set rest. getLayer m j \<noteq> None}" "distinct ks" by blast
    with True same show ?thesis by (intro exI [of _ ks]) auto
  next
    case False
    define m1 where "m1 = m\<lparr>layers := filter (\<lambda>l. layer_id l \<noteq> i) (layers m),
                             removals := removals m @ [RemoveLayer i]\<rparr>"
    from False have rem: "removeLayer m i = Inr m1" by (simp add: removeLayer_def m1_def)
    have present1: "getLayer m1 j \<noteq> None \<longleftrightarrow> j \<noteq> i \<and> getLayer m j \<noteq> None" for j
      unfolding getLayer_present by (auto simp: m1_def)
    from Cons.IH [of m1] obtain ks where
      run: "forEach_layerId m1 rest =
         Inr (m1\<lparr>layers := filter (\<lambda>l. layer_id l \<notin> set rest) (layers m1),
                 removals := removals m1 @ map RemoveLayer ks\<rparr>)" and
      ks: "set ks = {j \<in> set rest. getLayer m1 j \<noteq> None}" and d: "distinct ks" by blast
    have lay: "filter (\<lambda>l. layer_id l \<notin> set rest) (layers m1) =
               filter (\<lambda>l. layer_id l \<notin> set (i # rest)) (layers m)"
      by (auto simp: m1_def intro: filter_cong)
    have "forEach_layerId m (i # rest) =
            Inr (m\<lparr>layers := filter (\<lambda>l. layer_id l \<notin> set (i # rest)) (layers m),
                   removals := removals m @ map RemoveLayer (i # ks)\<rparr>)"
      using False rem run lay by (simp add: m1_def)
    moreover have "set (i # ks) = {j \<in> set (i # rest). getLayer m j \<noteq> None}"
      using False ks present1 by auto
    moreover have "distinct (i # ks)" using d ks present1 by auto
    ultimately show ?thesis by blast
  qed
qed

lemma forEach_sourceId_effect:
  "\<exists>js. forEach_sourceId m ss =
          Inr (m\<lparr>sources := sources m |` (- set ss),
                 removals := removals m @ map RemoveSource js\<rparr>) \<and>
        set js = {i \<in> set ss. getSource m i \<noteq> None} \<and> distinct js"
proof (induction ss arbitrary: m)
  case Nil
  show ?case by (rule exI [of _ "[]"]) simp
next
  case (Cons i rest)
  show ?case
  proof (cases "getSource m i = None")
    case True
    then have same: "sources m |` (- set (i # rest)) = sources m |` (- set rest)"
      by (auto simp: getSource_def restrict_map_def fun_eq_iff)
    from Cons.IH [of m] obtain js where
      "forEach_sourceId m rest =
         Inr (m\<lparr>sources := sources m |` (- set rest),
                removals := removals m @ map RemoveSource js\<rparr>)"
      "set js = {j \<in> set rest. getSource m j \<noteq> None}" "distinct js" by blast
    with True same show ?thesis by (intro exI [of _ js]) auto
  next
    case False
    define m1 where "m1 = m\<lparr>sources := (sources m)(i := None),
                             removals := removals m @ [RemoveSource i]\<rparr>"
    from False have rem: "removeSource m i = Inr m1" by (simp add: removeSource_def m1_def)
    have present1: "getSource m1 j \<noteq> None \<longleftrightarrow> j \<noteq> i \<and> getSource m j \<noteq> None" for j
      by (auto simp: m1_def getSource_def)
    from Cons.IH [of m1] obtain js where
      run: "forEach_sourceId m1 rest =
         Inr (m1\<lparr>sources := sources m1 |` (- set rest),
                 removals := removals m1 @ map RemoveSource js\<rparr>)" and
      js: "set js = {j \<in> set rest. getSource m1 j \<noteq> None}" and d: "distinct js" by blast
    have src: "sources m1 |` (- set rest) = sources m |` (- set (i # rest))"
      by (auto simp: m1_def restrict_map_def fun_eq_iff)
    have "forEach_sourceId m (i # rest) =
            Inr (m\<lparr>sources := sources m |` (- set (i # rest)),
                   removals := removals m @ map RemoveSource (i # js)\<rparr>)"
      using False rem run src by (simp add: m1_def)
    moreover have "set (i # js) = {j \<in> set (i # rest). getSource m j \<noteq> None}"
      using False js present1 by auto
    moreover have "distinct (i # js)" using d js present1 by auto
    ultimately show ?thesis by blast
  qed
qed

lemma cleanupLayers_effect:
  "\<exists>ks js. cleanupLayers m ls ss =
          Inr (m\<lparr>layers := filter (\<lambda>l. layer_id l \<notin> set ls) (layers m),
                 sources := sources m |` (- set ss),
                 removals := removals m @ map RemoveLayer ks @ map RemoveSource js\<rparr>) \<and>
        set ks = {i \<in> set ls. getLayer m i \<noteq> None} \<and> distinct ks \<and>
        set js = {i \<in> set ss. getSource m i \<noteq> None} \<and> distinct js"
proof -
  from forEach_layerId_effect [of m ls] obtain ks where
    l: "forEach_layerId m ls =
          Inr (m\<lparr>layers := filter (\<lambda>l. layer_id l \<notin> set ls) (layers m),
                 removals := removals m @ map RemoveLayer ks\<rparr>)" and
    ks: "set ks = {i \<in> set ls. getLayer m i \<noteq> None}" "distinct ks" by blast
  define m1 where "m1 = m\<lparr>layers := filter (\<lambda>l. layer_id l \<notin> set ls) (layers m),
                 removals := removals m @ map RemoveLayer ks\<rparr>"
  from forEach_sourceId_effect [of m1 ss] obtain js where
    s: "forEach_sourceId m1 ss =
          Inr (m1\<lparr>sources := sources m1 |` (- set ss),
                 removals := removals m1 @ map RemoveSource js\<rparr>)" and
    js: "set js = {i \<in> set ss. getSource m1 i \<noteq> None}" "distinct js" by blast
  have "getSource m1 i = getSource m i" for i by (simp add: m1_def getSource_def)
  with js have js': "set js = {i \<in> set ss. getSource m i \<noteq> None}" by simp
  have "cleanupLayers m ls ss =
          Inr (m\<lparr>layers := filter (\<lambda>l. layer_id l \<notin> set ls) (layers m),
                 sources := sources m |` (- set ss),
                 removals := removals m @ map RemoveLayer ks @ map RemoveSource js\<rparr>)"
    using l s by (simp add: cleanupLayers_def m1_def)
  with ks js' js(2) show ?thesis by blast
qed

lemma only_sources_map: "only_sources (map RemoveSource js)"
  by (induction js) auto

lemma layers_first_append: "layers_first (map RemoveLayer ks @ map RemoveSource js)"
proof (induction ks)
  case Nil
  show ?case by (cases js) (auto simp: only_sources_map)
next
  case (Cons k ks)
  then show ?case by simp
qed

section \<open>Properties of the helpers with their exceptions\<close>

lemma map_statistic_well_shaped:
  "list_all (\<lambda>f. js_properties f \<noteq> None) fs \<Longrightarrow>
   map_statistic k fs =
     Inr (map (\<lambda>f. property
                 \<lparr>properties = (case js_properties f of None \<Rightarrow> Map.empty | Some p \<Rightarrow> p)\<rparr> k)
            fs)"
  by (induction fs) (auto simp: property_def)

lemma kept_property_count:
  "length (List.map_filter kept (map (\<lambda>f. property f k) (features (collection g)))) =
   length (numeric_features g k)"
proof -
  have "length (List.map_filter kept
          (map (\<lambda>f. property f k)
             (map (\<lambda>f. \<lparr>properties =
                          (case js_properties f of None \<Rightarrow> Map.empty | Some p \<Rightarrow> p)\<rparr>) fs))) =
        length (filter (\<lambda>f. case js_properties f of
                   None \<Rightarrow> False
                 | Some p \<Rightarrow> (case p k of Some (Number v) \<Rightarrow> v \<noteq> NaN | _ \<Rightarrow> False)) fs)" for fs
    by (induction fs)
      (auto simp: List.map_filter_simps property_def isNaN_def
        split: option.splits jsval.splits)
  then show ?thesis by (simp add: collection_def numeric_features_def)
qed

lemma getMinMaxFromGeoJson_js_returns:
  assumes shape: "well_shaped g" and count: "length (numeric_features g k) \<le> max_arguments"
  shows "getMinMaxFromGeoJson_js max_arguments g k = Inr (getMinMaxFromGeoJson (collection g) k)"
proof -
  let ?vals = "List.map_filter kept (map (\<lambda>f. property f k) (features (collection g)))"
  from shape have mapped: "map_statistic k (js_features g) =
      Inr (map (\<lambda>f. property f k) (features (collection g)))"
    by (simp add: well_shaped_def map_statistic_well_shaped collection_def comp_def)
  from count have "\<not> max_arguments < length ?vals" by (simp add: kept_property_count)
  then have "spread_call max_arguments Math_min ?vals = Inr (Math_min ?vals)"
    and "spread_call max_arguments Math_max ?vals = Inr (Math_max ?vals)"
    by (simp_all add: spread_call_def)
  then show ?thesis
    unfolding getMinMaxFromGeoJson_js_def getMinMaxFromGeoJson_def mapped
    by (simp add: Let_def)
qed




text \<open>
  The exceptions are there on inputs of another shape: a feature whose \<open>properties\<close> is
  \<open>null\<close> and a map whose style is not loaded make the helpers raise a \<open>TypeError\<close>,
  and an exception of the colour library is one of \<open>getDynamicFillColorExpression\<close>.
\<close>

lemma map_statistic_null:
  "\<not> list_all (\<lambda>f. js_properties f \<noteq> None) fs \<Longrightarrow> map_statistic k fs = Inl TypeError"
proof (induction fs)
  case Nil
  then show ?case by simp
next
  case (Cons f fs)
  show ?case
  proof (cases "js_properties f")
    case None
    then show ?thesis by simp
  next
    case (Some p)
    with Cons.prems have "\<not> list_all (\<lambda>f. js_properties f \<noteq> None) fs" by simp
    then have "map_statistic k fs = Inl TypeError" by (rule Cons.IH)
    with Some show ?thesis by simp
  qed
qed

lemma getMinMaxFromGeoJson_js_null_properties:
  "\<not> well_shaped g \<Longrightarrow> getMinMaxFromGeoJson_js max_arguments g k = Inl TypeError"
  by (simp add: getMinMaxFromGeoJson_js_def well_shaped_def map_statistic_null)

lemma findFirstSymbolLayer_js_no_style:
  "\<not> style_loaded m \<Longrightarrow> findFirstSymbolLayer_js m = Inl TypeError"
  by (simp add: findFirstSymbolLayer_js_def getStyle_def)

lemma getDynamicFillColorExpression_js_chroma:
  assumes shape: "well_shaped g" and count: "length (numeric_features g k) \<le> max_arguments"
    and lib: "\<not> chroma_returns library (getMinMaxFromGeoJson (collection g) k)"
  shows "getDynamicFillColorExpression_js max_arguments library g k = Inl ChromaError"
proof -
  obtain lo hi where r: "getMinMaxFromGeoJson (collection g) k = (lo, hi)"
    by (cases "getMinMaxFromGeoJson (collection g) k")
  from getMinMaxFromGeoJson_js_returns [OF shape count] r
  have js: "getMinMaxFromGeoJson_js max_arguments g k = Inr (lo, hi)" by simp
  from lib show ?thesis
    unfolding getDynamicFillColorExpression_js_def js r
    by (auto simp: chroma_returns_def Let_def)
qed







lemma example_values_n:
  "has_value example_collection ''n'' v \<longleftrightarrow> v = Finite 7 \<or> v = Finite 3"
  by (auto simp: has_value_def example_collection_def)


lemma example_values_q: "\<not> has_value example_collection ''q'' v"
  by (auto simp: has_value_def example_collection_def)

lemma example_range_n: "getMinMaxFromGeoJson example_collection ''n'' = (Finite 3, Finite 7)"
  by (simp add: example_collection_def getMinMaxFromGeoJson_def List.map_filter_simps
      property_def Math_min_def Math_max_def isNaN_def strict_eq_def)

lemma example_cleanup:
  "cleanupLayers example_map example_layerIds example_sourceIds = Inr example_cleaned"
  by (simp add: cleanupLayers_def example_map_def example_layerIds_def example_sourceIds_def
      example_cleaned_def getLayer_def getSource_def removeLayer_def removeSource_def)

section \<open>The claims\<close>

text \<open>
  C1. For every feature collection that contains at least two distinct numeric values for
  the key, \<open>getMinMaxFromGeoJson\<close> returns the pair \<open>(m, M)\<close> of the least and the greatest
  of the numeric values for that key; entries that are missing, not numbers or \<open>NaN\<close> take
  no part (they are no values in the sense of \<open>has_value\<close>).
\<close>

theorem getMinMaxFromGeoJson_distinct:
  assumes "has_value g k a" and "has_value g k b" and "a \<noteq> b"
  shows "\<exists>m M. getMinMaxFromGeoJson g k = (m, M) \<and>
           has_value g k m \<and> has_value g k M \<and>
           (\<forall>v. has_value g k v \<longrightarrow> js_le m v \<and> js_le v M)"
proof -
  from getMinMax_cases [OF assms(1)] obtain m M where
    m: "has_value g k m" and M: "has_value g k M" and
    b: "\<forall>v. has_value g k v \<longrightarrow> js_le m v \<and> js_le v M" and
    r: "getMinMaxFromGeoJson g k = (if m = M then (m, js_add m (Finite 1)) else (m, M))"
    by blast
  have "m \<noteq> M"
  proof
    assume "m = M"
    with b assms(1,2) have "js_le m a" "js_le a m" "js_le m b" "js_le b m" by auto
    then have "a = m" "b = m" by (auto dest: js_le_antisym)
    with assms(3) show False by simp
  qed
  with r m M b show ?thesis by auto
qed

text \<open>
  The example collection has the numeric values 7 and 3 for \<open>n\<close>; the theorem gives a pair
  of values that bound both, which can only be \<open>(3, 7)\<close>.
\<close>

theorem getMinMaxFromGeoJson_distinct_witness:
  "has_value example_collection ''n'' (Finite 7) \<and>
   has_value example_collection ''n'' (Finite 3) \<and>
   Finite 7 \<noteq> Finite 3 \<and>
   getMinMaxFromGeoJson example_collection ''n'' = (Finite 3, Finite 7)"
proof -
  have a: "has_value example_collection ''n'' (Finite 7)"
    and b: "has_value example_collection ''n'' (Finite 3)"
    by (simp_all add: example_values_n)
  have ab: "Finite 7 \<noteq> Finite 3" by simp
  from getMinMaxFromGeoJson_distinct [OF a b ab] obtain m M where
    r: "getMinMaxFromGeoJson example_collection ''n'' = (m, M)" and
    m: "has_value example_collection ''n'' m" and
    M: "has_value example_collection ''n'' M" and
    bounds: "\<forall>v. has_value example_collection ''n'' v \<longrightarrow> js_le m v \<and> js_le v M"
    by blast
  from bounds a b have "js_le m (Finite 3)" "js_le (Finite 7) M" by auto
  with m M have "m = Finite 3" "M = Finite 7"
    by (auto simp: example_values_n js_le_def strict_eq_def)
  with r a b ab show ?thesis by simp
qed

text \<open>
  C2. For every feature collection in which no feature has a numeric value for the key (the
  key is absent, not a number or \<open>NaN\<close> in every feature), \<open>getMinMaxFromGeoJson\<close>
  returns \<open>(0, 0)\<close>.
\<close>

theorem getMinMaxFromGeoJson_no_values:
  assumes "\<forall>v. \<not> has_value g k v"
  shows "getMinMaxFromGeoJson g k = (Finite 0, Finite 0)"
proof -
  from assms have "set (List.map_filter kept (map (\<lambda>f. property f k) (features g))) = {}"
    by (simp add: set_kept_values)
  then show ?thesis by (simp add: getMinMaxFromGeoJson_def)
qed

text \<open>No feature of the example collection has the key \<open>q\<close>.\<close>

theorem getMinMaxFromGeoJson_no_values_witness:
  "\<not> has_value example_collection ''q'' (Finite 0) \<and>
   getMinMaxFromGeoJson example_collection ''q'' = (Finite 0, Finite 0)"
proof -
  have none: "\<forall>v. \<not> has_value example_collection ''q'' v" by (simp add: example_values_q)
  from getMinMaxFromGeoJson_no_values [OF none] none show ?thesis by simp
qed




text \<open>
  C4, as stated: the expression selects a brightened three-stop interpolation when the
  feature is hovered and an unbrightened three-stop interpolation otherwise. It does not:
  on the example collection each branch of the expression has two stops, one at the
  minimum and one at the maximum.
\<close>

theorem getDynamicFillColorExpression_three_stops_counterexample:
  "\<not> three_stop_branches (getDynamicFillColorExpression example_collection ''n'')"
  unfolding getDynamic_shape [OF example_range_n refl refl]
  by (simp add: three_stop_branches_def when_hovered_def when_not_hovered_def stop_count_def)

text \<open>
  C4, amended. For every feature collection and key, \<open>getDynamicFillColorExpression\<close>
  builds a \<open>case\<close> expression whose condition is the feature's hover state (false when
  unset), whose output under that condition is a linear interpolation with two stops, at
  the minimum and the maximum that \<open>getMinMaxFromGeoJson\<close> extracts, with the brightened
  colours of the scale at these two values, and whose fallback is the same interpolation
  with the unbrightened colours. The scale is the three-colour scale in \<open>lab\<close> mode whose
  domain is the extracted range.
\<close>

theorem getDynamicFillColorExpression_two_stops:
  "\<exists>lo hi sc inp hov plain.
     getMinMaxFromGeoJson g k = (lo, hi) \<and>
     sc = ScaleMode (ScaleDomain (Scale [''#add8e6'', ''#4682b4'', ''#00008b'']) [lo, hi])
            ''lab'' \<and>
     case_parts (getDynamicFillColorExpression g k) =
       Some (Arr [Str ''boolean'', Arr [Str ''feature-state'', Str ''hover''], Bool False],
             hov, plain) \<and>
     interpolate_parts hov =
       Some (Arr [Str ''linear''], inp,
             [(Num lo, Hex (Brighten (Apply sc lo))),
              (Num hi, Hex (Brighten (Apply sc hi)))]) \<and>
     interpolate_parts plain =
       Some (Arr [Str ''linear''], inp,
             [(Num lo, Hex (Apply sc lo)), (Num hi, Hex (Apply sc hi))])"
proof -
  obtain lo hi where r: "getMinMaxFromGeoJson g k = (lo, hi)"
    by (cases "getMinMaxFromGeoJson g k")
  show ?thesis
    unfolding getDynamic_shape [OF r refl refl] using r by simp
qed

text \<open>On the example collection the stops are at 3 and 7.\<close>

theorem getDynamicFillColorExpression_two_stops_witness:
  "\<exists>sc inp hov plain.
     sc = ScaleMode (ScaleDomain (Scale [''#add8e6'', ''#4682b4'', ''#00008b''])
                       [Finite 3, Finite 7]) ''lab'' \<and>
     case_parts (getDynamicFillColorExpression example_collection ''n'') =
       Some (Arr [Str ''boolean'', Arr [Str ''feature-state'', Str ''hover''], Bool False],
             hov, plain) \<and>
     interpolate_parts hov =
       Some (Arr [Str ''linear''], inp,
             [(Num (Finite 3), Hex (Brighten (Apply sc (Finite 3)))),
              (Num (Finite 7), Hex (Brighten (Apply sc (Finite 7))))]) \<and>
     interpolate_parts plain =
       Some (Arr [Str ''linear''], inp,
             [(Num (Finite 3), Hex (Apply sc (Finite 3))),
              (Num (Finite 7), Hex (Apply sc (Finite 7)))])"
  using getDynamicFillColorExpression_two_stops [of example_collection "''n''"]
  by (simp add: example_range_n)

text \<open>
  C5. \<open>findFirstSymbolLayer\<close> returns \<open>null\<close> when the list of layers is empty or has no
  layer of type \<open>symbol\<close> (and only then), and otherwise the id of the first layer of that
  type in the order of the list.
\<close>

theorem findFirstSymbolLayer_first:
  "(layers m = [] \<longrightarrow> findFirstSymbolLayer m = None) \<and>
   (findFirstSymbolLayer m = None \<longleftrightarrow>
      (\<forall>l \<in> set (layers m). layer_type l \<noteq> ''symbol'')) \<and>
   (\<forall>i < length (layers m).
      layer_type (layers m ! i) = ''symbol'' \<and>
      (\<forall>j < i. layer_type (layers m ! j) \<noteq> ''symbol'') \<longrightarrow>
      findFirstSymbolLayer m = Some (layer_id (layers m ! i)))"
  by (simp add: findFirstSymbolLayer_def first_symbol_None first_symbol_Some)

text \<open>
  In the example map the first \<open>symbol\<close> layer is the second layer, \<open>labels\<close>, and a
  second one follows it; without layers, or with the \<open>fill\<close> layer alone, the result is
  \<open>null\<close>.
\<close>

theorem findFirstSymbolLayer_first_witness:
  "findFirstSymbolLayer example_map = Some ''labels'' \<and>
   findFirstSymbolLayer (example_map\<lparr>layers := []\<rparr>) = None \<and>
   findFirstSymbolLayer
     (example_map\<lparr>layers := [\<lparr>layer_id = ''water'', layer_type = ''fill''\<rparr>]\<rparr>) = None"
proof -
  have len: "1 < length (layers example_map)" by (simp add: example_map_def)
  have sym: "layer_type (layers example_map ! 1) = ''symbol''" by (simp add: example_map_def)
  have before: "\<forall>j < 1. layer_type (layers example_map ! j) \<noteq> ''symbol''"
    by (simp add: example_map_def)
  from findFirstSymbolLayer_first [of example_map] len sym before
  have "findFirstSymbolLayer example_map = Some (layer_id (layers example_map ! 1))" by blast
  then have a: "findFirstSymbolLayer example_map = Some ''labels''"
    by (simp add: example_map_def)
  have b: "findFirstSymbolLayer (example_map\<lparr>layers := []\<rparr>) = None"
    using findFirstSymbolLayer_first [of "example_map\<lparr>layers := []\<rparr>"] by simp
  have c: "findFirstSymbolLayer
     (example_map\<lparr>layers := [\<lparr>layer_id = ''water'', layer_type = ''fill''\<rparr>]\<rparr>) = None"
    using findFirstSymbolLayer_first
      [of "example_map\<lparr>layers := [\<lparr>layer_id = ''water'', layer_type = ''fill''\<rparr>]\<rparr>"]
    by simp
  from a b c show ?thesis by simp
qed

text \<open>
  C6. For every map and every two lists of layer ids and source ids, \<open>cleanupLayers\<close>
  raises no error; the layers left are the layers whose id is not listed, in their order;
  the sources left are the sources whose id is not listed, each with its definition; and
  the removal operations performed are one \<open>removeLayer\<close> for every listed layer id that
  the map has and one \<open>removeSource\<close> for every listed source id that the map has, and no
  other.
\<close>

theorem cleanupLayers_removes_listed:
  "\<exists>m' new. cleanupLayers m layerIds sourceIds = Inr m' \<and>
     layers m' = filter (\<lambda>l. layer_id l \<notin> set layerIds) (layers m) \<and>
     (\<forall>i. sources m' i = (if i \<in> set sourceIds then None else sources m i)) \<and>
     removals m' = removals m @ new \<and> distinct new \<and>
     set new = RemoveLayer ` {i \<in> set layerIds. getLayer m i \<noteq> None} \<union>
               RemoveSource ` {i \<in> set sourceIds. getSource m i \<noteq> None}"
proof -
  from cleanupLayers_effect [of m layerIds sourceIds] obtain ks js where
    r: "cleanupLayers m layerIds sourceIds =
          Inr (m\<lparr>layers := filter (\<lambda>l. layer_id l \<notin> set layerIds) (layers m),
                 sources := sources m |` (- set sourceIds),
                 removals := removals m @ map RemoveLayer ks @ map RemoveSource js\<rparr>)" and
    ks: "set ks = {i \<in> set layerIds. getLayer m i \<noteq> None}" "distinct ks" and
    js: "set js = {i \<in> set sourceIds. getSource m i \<noteq> None}" "distinct js"
    by blast
  have d: "distinct (map RemoveLayer ks @ map RemoveSource js)"
    using ks(2) js(2) by (auto simp: distinct_map inj_on_def)
  have s: "set (map RemoveLayer ks @ map RemoveSource js) =
        RemoveLayer ` {i \<in> set layerIds. getLayer m i \<noteq> None} \<union>
        RemoveSource ` {i \<in> set sourceIds. getSource m i \<noteq> None}"
    using ks(1) js(1) by simp
  define m' where "m' = m\<lparr>layers := filter (\<lambda>l. layer_id l \<notin> set layerIds) (layers m),
                 sources := sources m |` (- set sourceIds),
                 removals := removals m @ map RemoveLayer ks @ map RemoveSource js\<rparr>"
  have "cleanupLayers m layerIds sourceIds = Inr m'" using r by (simp add: m'_def)
  moreover have "layers m' = filter (\<lambda>l. layer_id l \<notin> set layerIds) (layers m)"
    by (simp add: m'_def)
  moreover have "\<forall>i. sources m' i = (if i \<in> set sourceIds then None else sources m i)"
    by (simp add: m'_def restrict_map_def)
  moreover have "removals m' = removals m @ (map RemoveLayer ks @ map RemoveSource js)"
    by (simp add: m'_def)
  ultimately show ?thesis using d s by blast
qed

text \<open>
  The example cleanup lists the layer \<open>water\<close> twice and a layer \<open>roads\<close> and a source
  \<open>heat\<close> that the map does not have: \<open>water\<close> and \<open>units\<close> go, the rest stays.
\<close>

theorem cleanupLayers_removes_listed_witness:
  "cleanupLayers example_map example_layerIds example_sourceIds = Inr example_cleaned \<and>
   layers example_cleaned =
     [\<lparr>layer_id = ''labels'', layer_type = ''symbol''\<rparr>,
      \<lparr>layer_id = ''icons'', layer_type = ''symbol''\<rparr>] \<and>
   sources example_cleaned ''units'' = None \<and>
   sources example_cleaned ''heat'' = None \<and>
   sources example_cleaned ''tiles'' = Some (String ''vector'') \<and>
   set (removals example_cleaned) = {RemoveLayer ''water'', RemoveSource ''units''}"
proof -
  from cleanupLayers_removes_listed [of example_map example_layerIds example_sourceIds]
  obtain m' where "\<exists>new.
     cleanupLayers example_map example_layerIds example_sourceIds = Inr m' \<and>
     layers m' = filter (\<lambda>l. layer_id l \<notin> set example_layerIds) (layers example_map) \<and>
     (\<forall>i. sources m' i =
        (if i \<in> set example_sourceIds then None else sources example_map i)) \<and>
     removals m' = removals example_map @ new \<and> distinct new \<and>
     set new =
       RemoveLayer ` {i \<in> set example_layerIds. getLayer example_map i \<noteq> None} \<union>
       RemoveSource ` {i \<in> set example_sourceIds. getSource example_map i \<noteq> None}" ..
  then obtain new where all:
    "cleanupLayers example_map example_layerIds example_sourceIds = Inr m' \<and>
     layers m' = filter (\<lambda>l. layer_id l \<notin> set example_layerIds) (layers example_map) \<and>
     (\<forall>i. sources m' i =
        (if i \<in> set example_sourceIds then None else sources example_map i)) \<and>
     removals m' = removals example_map @ new \<and> distinct new \<and>
     set new =
       RemoveLayer ` {i \<in> set example_layerIds. getLayer example_map i \<noteq> None} \<union>
       RemoveSource ` {i \<in> set example_sourceIds. getSource example_map i \<noteq> None}" ..
  note r = all [THEN conjunct1]
  note l = all [THEN conjunct2, THEN conjunct1]
  note s = all [THEN conjunct2, THEN conjunct2, THEN conjunct1]
  note n = all [THEN conjunct2, THEN conjunct2, THEN conjunct2, THEN conjunct1]
  note new = all [THEN conjunct2, THEN conjunct2, THEN conjunct2, THEN conjunct2,
    THEN conjunct2]
  from r have m': "m' = example_cleaned" by (simp add: example_cleanup)
  have ls: "{i \<in> set example_layerIds. getLayer example_map i \<noteq> None} = {''water''}"
    by (auto simp: example_layerIds_def example_map_def getLayer_def)
  have ss: "{i \<in> set example_sourceIds. getSource example_map i \<noteq> None} = {''units''}"
    by (auto simp: example_sourceIds_def example_map_def getSource_def)
  have "set new = RemoveLayer ` {''water''} \<union> RemoveSource ` {''units''}"
    unfolding new ls ss by (rule refl)
  then have new': "set new = {RemoveLayer ''water'', RemoveSource ''units''}"
    by (simp only: image_insert image_empty Un_insert_left Un_empty_left)
  have "removals example_map = []" by (simp add: example_map_def)
  with n new' have c5: "set (removals m') = {RemoveLayer ''water'', RemoveSource ''units''}"
    by (simp only: append_Nil)
  from l have c2: "layers m' =
     [\<lparr>layer_id = ''labels'', layer_type = ''symbol''\<rparr>,
      \<lparr>layer_id = ''icons'', layer_type = ''symbol''\<rparr>]"
    by (simp add: example_layerIds_def example_map_def)
  from s have c3: "sources m' ''units'' = None" and c3': "sources m' ''heat'' = None"
    and c4: "sources m' ''tiles'' = Some (String ''vector'')"
    by (simp_all add: example_sourceIds_def example_map_def)
  from r c2 c3 c3' c4 c5 show ?thesis unfolding m' by (intro conjI)
qed

text \<open>
  C7. \<open>cleanupLayers\<close> is idempotent: for every map and every two lists of ids, a second
  call with the same lists raises no error and leaves the map that the first call produced
  as it is (it performs no removal).
\<close>

theorem cleanupLayers_idempotent:
  "\<exists>m'. cleanupLayers m layerIds sourceIds = Inr m' \<and>
     cleanupLayers m' layerIds sourceIds = Inr m'"
proof -
  from cleanupLayers_effect [of m layerIds sourceIds] obtain ks js where
    r: "cleanupLayers m layerIds sourceIds =
          Inr (m\<lparr>layers := filter (\<lambda>l. layer_id l \<notin> set layerIds) (layers m),
                 sources := sources m |` (- set sourceIds),
                 removals := removals m @ map RemoveLayer ks @ map RemoveSource js\<rparr>)"
    by blast
  define m' where "m' = m\<lparr>layers := filter (\<lambda>l. layer_id l \<notin> set layerIds) (layers m),
                 sources := sources m |` (- set sourceIds),
                 removals := removals m @ map RemoveLayer ks @ map RemoveSource js\<rparr>"
  from cleanupLayers_effect [of m' layerIds sourceIds] obtain ks' js' where
    r': "cleanupLayers m' layerIds sourceIds =
          Inr (m'\<lparr>layers := filter (\<lambda>l. layer_id l \<notin> set layerIds) (layers m'),
                 sources := sources m' |` (- set sourceIds),
                 removals := removals m' @ map RemoveLayer ks' @ map RemoveSource js'\<rparr>)" and
    ks': "set ks' = {i \<in> set layerIds. getLayer m' i \<noteq> None}" and
    js': "set js' = {i \<in> set sourceIds. getSource m' i \<noteq> None}"
    by blast
  have "set ks' = {}" unfolding ks' getLayer_present by (auto simp: m'_def)
  moreover have "set js' = {}" unfolding js' by (auto simp: m'_def getSource_def)
  moreover have "filter (\<lambda>l. layer_id l \<notin> set layerIds) (layers m') = layers m'"
    by (simp add: m'_def)
  moreover have "sources m' |` (- set sourceIds) = sources m'"
    by (simp add: m'_def)
  ultimately have "cleanupLayers m' layerIds sourceIds = Inr m'"
    using r' by simp
  with r show ?thesis by (simp add: m'_def)
qed

text \<open>The example cleanup, run again on the map it produced.\<close>

theorem cleanupLayers_idempotent_witness:
  "cleanupLayers example_map example_layerIds example_sourceIds = Inr example_cleaned \<and>
   cleanupLayers example_cleaned example_layerIds example_sourceIds = Inr example_cleaned"
  using cleanupLayers_idempotent [of example_map example_layerIds example_sourceIds]
  by (simp add: example_cleanup)




text \<open>
  C9. In the expression that \<open>getDynamicFillColorExpression\<close> returns, the hovered and
  the non-hovered branch both read the statistic as
  \<open>['coalesce', ['get', statisticKey], 0]\<close>; on a feature that has no such property this
  input is 0, whatever the extracted range is, so also when 0 lies outside it.
\<close>

theorem getDynamicFillColorExpression_missing_as_zero:
  "Option.bind (when_hovered (getDynamicFillColorExpression g k)) interpolate_input =
     Some (Arr [Str ''coalesce'', Arr [Str ''get'', Str k], Num (Finite 0)]) \<and>
   Option.bind (when_not_hovered (getDynamicFillColorExpression g k)) interpolate_input =
     Some (Arr [Str ''coalesce'', Arr [Str ''get'', Str k], Num (Finite 0)]) \<and>
   (properties f k = None \<longrightarrow>
      evaluate f (Arr [Str ''coalesce'', Arr [Str ''get'', Str k], Num (Finite 0)]) =
        Some (Number (Finite 0)))"
proof -
  obtain lo hi where r: "getMinMaxFromGeoJson g k = (lo, hi)"
    by (cases "getMinMaxFromGeoJson g k")
  show ?thesis
    unfolding getDynamic_shape [OF r refl refl]
    by (simp add: when_hovered_def when_not_hovered_def interpolate_input_def)
qed

text \<open>
  The example feature has no property \<open>n\<close>, and the range of the example collection for
  \<open>n\<close> is \<open>(3, 7)\<close>: the feature is read as 0, below the range.
\<close>

theorem getDynamicFillColorExpression_missing_as_zero_witness:
  "properties example_feature ''n'' = None \<and>
   getMinMaxFromGeoJson example_collection ''n'' = (Finite 3, Finite 7) \<and>
   js_lt (Finite 0) (Finite 3) \<and>
   Option.bind
     (Option.bind (when_hovered (getDynamicFillColorExpression example_collection ''n''))
        interpolate_input)
     (evaluate example_feature) = Some (Number (Finite 0)) \<and>
   Option.bind
     (Option.bind (when_not_hovered (getDynamicFillColorExpression example_collection ''n''))
        interpolate_input)
     (evaluate example_feature) = Some (Number (Finite 0))"
proof -
  have missing: "properties example_feature ''n'' = None" by (simp add: example_feature_def)
  from getDynamicFillColorExpression_missing_as_zero
    [of example_collection "''n''" example_feature] missing
  have "Option.bind (when_hovered (getDynamicFillColorExpression example_collection ''n''))
          interpolate_input =
          Some (Arr [Str ''coalesce'', Arr [Str ''get'', Str ''n''], Num (Finite 0)])"
    and "Option.bind (when_not_hovered (getDynamicFillColorExpression example_collection ''n''))
          interpolate_input =
          Some (Arr [Str ''coalesce'', Arr [Str ''get'', Str ''n''], Num (Finite 0)])"
    and "evaluate example_feature
          (Arr [Str ''coalesce'', Arr [Str ''get'', Str ''n''], Num (Finite 0)]) =
          Some (Number (Finite 0))"
    by blast+
  then show ?thesis using missing example_range_n by simp
qed

text \<open>
  C10. \<open>cleanupLayers\<close> performs all its layer removals before its source removals: in
  the sequence of removal operations that a call adds, no \<open>removeSource\<close> comes before a
  \<open>removeLayer\<close>.
\<close>

theorem cleanupLayers_layers_before_sources:
  "\<exists>m' new. cleanupLayers m layerIds sourceIds = Inr m' \<and>
     removals m' = removals m @ new \<and> layers_first new"
proof -
  from cleanupLayers_effect [of m layerIds sourceIds] obtain ks js where
    "cleanupLayers m layerIds sourceIds =
          Inr (m\<lparr>layers := filter (\<lambda>l. layer_id l \<notin> set layerIds) (layers m),
                 sources := sources m |` (- set sourceIds),
                 removals := removals m @ map RemoveLayer ks @ map RemoveSource js\<rparr>)"
    by blast
  then show ?thesis using layers_first_append [of ks js] by simp
qed

text \<open>The example cleanup removes the layer \<open>water\<close>, then the source \<open>units\<close>.\<close>

theorem cleanupLayers_layers_before_sources_witness:
  "cleanupLayers example_map example_layerIds example_sourceIds = Inr example_cleaned \<and>
   removals example_cleaned = [RemoveLayer ''water'', RemoveSource ''units''] \<and>
   layers_first (removals example_cleaned)"
  using cleanupLayers_layers_before_sources
    [of example_map example_layerIds example_sourceIds]
  by (simp add: example_cleanup example_cleaned_def)

end
